theory Spec2Isabelle
  imports
    Main
    "HOL-Library.Char_ord"
    "HOL-Library.List_Lexorder"
    "HOL-Library.Product_Lexorder"
    "HOL-Library.Multiset"
begin

section \<open>Data model of \<^verbatim>\<open>kubectl api-resources\<close>\<close>

text \<open>
  Go strings are byte sequences; \<^typ>\<open>string\<close> is a list of 8-bit characters. With
  \<^verbatim>\<open>Char_ord\<close> and \<^verbatim>\<open>List_Lexorder\<close> the order \<open><\<close> on \<^typ>\<open>string\<close> is the
  byte-wise lexicographic one that Go's string comparison uses.
\<close>

text \<open>
  Go \<^verbatim>\<open>error\<close> values: an opaque error with its message (\<^verbatim>\<open>fmt.Errorf\<close>, transport
  errors), the usage error of \<^verbatim>\<open>cmdutil.UsageErrorf\<close>, and
  \<^verbatim>\<open>genericclioptions.NoCompatiblePrinterError\<close> with the requested and the allowed
  formats.
\<close>

datatype error =
  Err string
| UsageError string "string list"
| NoCompatiblePrinterError string "string list"

text \<open>\<^verbatim>\<open>metav1.APIResource\<close>, with all of its fields.\<close>

record APIResource =
  Name :: string
  SingularName :: string
  Namespaced :: bool
  Group :: string
  Version :: string
  Kind :: string
  Verbs :: "string list"
  ShortNames :: "string list"
  Categories :: "string list"
  StorageVersionHash :: string

text \<open>
  \<^verbatim>\<open>metav1.APIResourceList\<close>; the two fields of the embedded \<^verbatim>\<open>TypeMeta\<close> carry its
  name as a prefix, since \<open>Kind\<close> is a field of \<^typ>\<open>APIResource\<close> already.
\<close>

record APIResourceList =
  TypeMeta_Kind :: string
  TypeMeta_APIVersion :: string
  GroupVersion :: string
  APIResources :: "APIResource list"

text \<open>\<^verbatim>\<open>groupResource\<close> (lines 84-88).\<close>

record groupResource =
  APIGroup :: string
  APIGroupVersion :: string
  APIResource :: APIResource

section \<open>Sorting: \<^verbatim>\<open>sortableResource\<close> (lines 395-422)\<close>

record sortableResource =
  resources :: "groupResource list"
  sortBy :: string

text \<open>
  \<^verbatim>\<open>strings.Compare\<close> of the Go library: 0 if \<open>a = b\<close>, -1 if \<open>a < b\<close>, +1 if
  \<open>a > b\<close>, lexicographically on bytes.
\<close>

definition strings_Compare :: "string \<Rightarrow> string \<Rightarrow> int" where
  "strings_Compare a b = (if a = b then 0 else if a < b then - 1 else 1)"

definition Len :: "sortableResource \<Rightarrow> nat" where
  "Len s = length (resources s)"

definition Swap :: "sortableResource \<Rightarrow> nat \<Rightarrow> nat \<Rightarrow> sortableResource" where
  "Swap s i j = s\<lparr>resources := (resources s)[i := resources s ! j, j := resources s ! i]\<rparr>"

definition compareValues :: "sortableResource \<Rightarrow> nat \<Rightarrow> nat \<Rightarrow> string \<times> string" where
  "compareValues s i j =
     (if sortBy s = ''name'' then
        (Name (APIResource (resources s ! i)), Name (APIResource (resources s ! j)))
      else if sortBy s = ''kind'' then
        (Kind (APIResource (resources s ! i)), Kind (APIResource (resources s ! j)))
      else (APIGroup (resources s ! i), APIGroup (resources s ! j)))"

definition Less :: "sortableResource \<Rightarrow> nat \<Rightarrow> nat \<Rightarrow> bool" where
  "Less s i j =
     (let ret = (case compareValues s i j of (a, b) \<Rightarrow> strings_Compare a b) in
      if ret > 0 then False
      else if ret = 0 then
        strings_Compare (Name (APIResource (resources s ! i)))
                        (Name (APIResource (resources s ! j))) < 0
      else True)"

text \<open>
  \<^verbatim>\<open>sort.Stable\<close> belongs to the Go library and sees the slice only through \<open>Len\<close>,
  \<open>Less\<close> and \<open>Swap\<close>. Its \<^verbatim>\<open>insertionSort(data, a, b)\<close> is

  \<^verbatim>\<open>for i := a + 1; i < b; i++ {
    for j := i; j > a && data.Less(j, j-1); j-- { data.Swap(j, j-1) } }\<close>

  \<open>sift\<close> is the inner loop (with \<open>a = 0\<close>), \<open>insertionSort\<close> the outer one. The
  library sorts blocks of 20 elements this way and merges them with \<^verbatim>\<open>SymMerge\<close>, so
  up to 20 elements the insertion sort is all it runs; \<open>sort_Stable\<close> runs the insertion
  sort over the whole slice. Lemma \<open>sort_Stable_unique\<close> below shows that for this
  \<open>Less\<close> there is one stably sorted permutation only, so a merge phase that keeps the
  library's contract cannot give another slice.
\<close>

primrec sift :: "sortableResource \<Rightarrow> nat \<Rightarrow> sortableResource" where
  "sift s 0 = s"
| "sift s (Suc j) = (if Less s (Suc j) j then sift (Swap s (Suc j) j) j else s)"

definition insertionSort :: "sortableResource \<Rightarrow> nat \<Rightarrow> sortableResource" where
  "insertionSort s b = fold (\<lambda>i s. sift s i) [1..<b] s"

definition sort_Stable :: "sortableResource \<Rightarrow> sortableResource" where
  "sort_Stable s = insertionSort s (Len s)"

section \<open>Collaborators outside the file\<close>

text \<open>
  Modelled from the spec: \<^verbatim>\<open>sets.New\<close>, \<^verbatim>\<open>Has\<close> and \<^verbatim>\<open>HasAll\<close> of
  \<^verbatim>\<open>k8s.io/apimachinery/pkg/util/sets\<close> are not under src/. The spec's superset filter
  is "a predicate requiring every element of a requested set to be present in the entry's
  corresponding set".
\<close>

definition sets_New :: "string list \<Rightarrow> string set" where
  "sets_New items = set items"

definition Has :: "string set \<Rightarrow> string \<Rightarrow> bool" where
  "Has s item = (item \<in> s)"

definition HasAll :: "string set \<Rightarrow> string list \<Rightarrow> bool" where
  "HasAll s items = list_all (Has s) items"

text \<open>\<^verbatim>\<open>schema.GroupVersion\<close>.\<close>

record schema_GroupVersion =
  gv_Group :: string
  gv_Version :: string

text \<open>
  Modelled from the spec: \<^verbatim>\<open>schema.ParseGroupVersion\<close> and \<^verbatim>\<open>GroupVersion.String\<close> of
  \<^verbatim>\<open>k8s.io/apimachinery/pkg/runtime/schema\<close> are not under src/. The glossary gives the
  form: "a server-reported identifier combining an API group (possibly empty, meaning the
  core group) and a version string, e.g. apps/v1", and Scenario A reads \<^verbatim>\<open>v1\<close> as the
  core group with the empty group name. A string with more than one \<^verbatim>\<open>/\<close> is the
  malformed one; the empty string and \<^verbatim>\<open>/\<close> give the empty group-version.
\<close>

definition ParseGroupVersion :: "string \<Rightarrow> error + schema_GroupVersion" where
  "ParseGroupVersion gv =
     (if length gv = 0 \<or> gv = ''/'' then Inr \<lparr>gv_Group = [], gv_Version = []\<rparr>
      else (case count_list gv (CHR ''/'') of
              0 \<Rightarrow> Inr \<lparr>gv_Group = [], gv_Version = gv\<rparr>
            | Suc 0 \<Rightarrow> Inr \<lparr>gv_Group = takeWhile (\<lambda>c. c \<noteq> CHR ''/'') gv,
                           gv_Version = drop 1 (dropWhile (\<lambda>c. c \<noteq> CHR ''/'') gv)\<rparr>
            | Suc (Suc _) \<Rightarrow> Inl (Err (''unexpected GroupVersion string: '' @ gv))))"

definition gv_String :: "schema_GroupVersion \<Rightarrow> string" where
  "gv_String gv =
     (if length (gv_Group gv) > 0 then gv_Group gv @ ''/'' @ gv_Version gv else gv_Version gv)"

text \<open>
  A printer (\<^verbatim>\<open>printers.ResourcePrinter\<close>, \<^verbatim>\<open>ResourcePrinterFunc\<close>) is modelled by the
  error its \<^verbatim>\<open>PrintObj\<close> returns for an object; the encoders themselves are outside the
  file.
\<close>

type_synonym printer = "APIResourceList \<Rightarrow> error option"

text \<open>
  The discovery client (\<^verbatim>\<open>discovery.CachedDiscoveryInterface\<close>): what
  \<^verbatim>\<open>ServerPreferredResources\<close> returns, depending on whether \<^verbatim>\<open>Invalidate\<close> was called
  before.
\<close>

record discovery =
  ServerPreferredResources :: "bool \<Rightarrow> APIResourceList list \<times> error option"

record RESTClientGetter =
  ToDiscoveryClient :: "error + discovery"

text \<open>\<^verbatim>\<open>cmd.Flags().Changed\<close> of the cobra command.\<close>

record Command =
  Changed :: "string \<Rightarrow> bool"

section \<open>Options and print flags (lines 65-166)\<close>

text \<open>
  The three flag sets of \<^verbatim>\<open>PrintFlags\<close> are outside the file; each is modelled by its
  \<^verbatim>\<open>AllowedFormats\<close> and its \<^verbatim>\<open>ToPrinter\<close> (the human-readable one reads the
  \<^verbatim>\<open>NoHeaders\<close> that \<^verbatim>\<open>PrintFlags.ToPrinter\<close> stores in it first). \<open>NoHeaders\<close> and
  \<open>OutputFormat\<close> are pointers: \<open>None\<close> is nil.
\<close>

record PrintFlags =
  JSONYaml_AllowedFormats :: "string list"
  JSONYaml_ToPrinter :: "string \<Rightarrow> error + printer"
  Name_AllowedFormats :: "string list"
  Name_ToPrinter :: "string \<Rightarrow> error + printer"
  HumanReadable_AllowedFormats :: "string list"
  HumanReadable_ToPrinter :: "bool \<Rightarrow> string \<Rightarrow> error + printer"
  NoHeaders :: "bool option"
  OutputFormat :: "string option"

text \<open>
  \<^verbatim>\<open>APIResourceOptions\<close>. The filter fields carry the prefix \<open>o_\<close>, their names being
  fields of \<^typ>\<open>APIResource\<close> and \<^typ>\<open>groupResource\<close> as well. \<open>Out\<close> is the writer of
  the \<^verbatim>\<open>IOStreams\<close>, modelled by the error a write of a text returns; a run reaches it
  through the tab writer of line 263 only. The interface
  \<open>discoveryClient\<close> and the function \<open>PrintObj\<close> are nil (\<open>None\<close>) until \<open>Complete\<close>
  sets them.
\<close>

record APIResourceOptions =
  SortBy :: string
  o_APIGroup :: string
  o_Namespaced :: bool
  o_Verbs :: "string list"
  Cached :: bool
  o_Categories :: "string list"
  groupChanged :: bool
  nsChanged :: bool
  discoveryClient :: "discovery option"
  Out :: "string \<Rightarrow> error option"
  PrintFlags :: PrintFlags
  PrintObj :: "printer option"

definition IsNoCompatiblePrinterError :: "error \<Rightarrow> bool" where
  "IsNoCompatiblePrinterError err =
     (case err of NoCompatiblePrinterError _ _ \<Rightarrow> True | _ \<Rightarrow> False)"

definition AllowedFormats :: "PrintFlags \<Rightarrow> string list" where
  "AllowedFormats f =
     [] @ JSONYaml_AllowedFormats f @ Name_AllowedFormats f @ HumanReadable_AllowedFormats f"

definition ToPrinter :: "PrintFlags \<Rightarrow> error + printer" where
  "ToPrinter f =
     (let outputFormat = (case OutputFormat f of Some fmt \<Rightarrow> fmt | None \<Rightarrow> []);
          noHeaders = (case NoHeaders f of Some b \<Rightarrow> b | None \<Rightarrow> False);
          skip = (\<lambda>r. case r of Inl err \<Rightarrow> IsNoCompatiblePrinterError err | Inr _ \<Rightarrow> False)
      in if \<not> skip (JSONYaml_ToPrinter f outputFormat) then JSONYaml_ToPrinter f outputFormat
         else if \<not> skip (HumanReadable_ToPrinter f noHeaders outputFormat)
           then HumanReadable_ToPrinter f noHeaders outputFormat
         else if \<not> skip (Name_ToPrinter f outputFormat) then Name_ToPrinter f outputFormat
         else Inl (NoCompatiblePrinterError outputFormat (AllowedFormats f)))"

section \<open>\<open>Validate\<close> and \<open>Complete\<close> (lines 204-259)\<close>

definition Validate :: "APIResourceOptions \<Rightarrow> error option" where
  "Validate opts =
     (let supportedSortTypes = sets_New ['''', ''name'', ''kind''] in
      if length (SortBy opts) > 0 then
        (if \<not> Has supportedSortTypes (SortBy opts)
         then Some (Err ''--sort-by accepts only name or kind'')
         else None)
      else None)"

text \<open>
  \<open>Complete\<close> returns the error, or the options as it has filled them in. Its first
  argument is \<^verbatim>\<open>printers.NewTypeSetter(scheme.Scheme).WrapToPrinter\<close>, outside the file.
\<close>

definition Complete ::
  "(printer \<Rightarrow> error + printer) \<Rightarrow> APIResourceOptions \<Rightarrow> RESTClientGetter \<Rightarrow> Command \<Rightarrow>
   string list \<Rightarrow> error + APIResourceOptions" where
  "Complete WrapToPrinter opts restClientGetter cmd args =
     (if length args \<noteq> 0 then Inl (UsageError ''unexpected arguments: '' args)
      else (case ToDiscoveryClient restClientGetter of
              Inl err \<Rightarrow> Inl err
            | Inr dc \<Rightarrow>
                (let opts1 = opts\<lparr>discoveryClient := Some dc,
                                  groupChanged := Changed cmd ''api-group'',
                                  nsChanged := Changed cmd ''namespaced''\<rparr>
                 in (case OutputFormat (PrintFlags opts1) of
                       None \<Rightarrow> Inr opts1
                     | Some _ \<Rightarrow>
                         (case ToPrinter (PrintFlags opts1) of
                            Inl err \<Rightarrow> Inl err
                          | Inr printer \<Rightarrow>
                              (case WrapToPrinter printer of
                                 Inl err \<Rightarrow> Inl err
                               | Inr printer' \<Rightarrow> Inr (opts1\<lparr>PrintObj := Some printer'\<rparr>)))))))"

section \<open>\<open>RunAPIResources\<close> (lines 261-384)\<close>

text \<open>
  The inner loop (lines 296-322) over the resources of one bucket; every \<^verbatim>\<open>continue\<close>
  is a branch that goes on with the accumulators unchanged. The accumulators are the
  slices \<^verbatim>\<open>resources\<close> and \<^verbatim>\<open>apiResources\<close>.
\<close>

fun filterResources ::
  "APIResourceOptions \<Rightarrow> schema_GroupVersion \<Rightarrow> APIResource list \<Rightarrow>
   groupResource list \<times> APIResource list \<Rightarrow> groupResource list \<times> APIResource list" where
  "filterResources opts gv [] acc = acc"
| "filterResources opts gv (resource # rest) (resources', apiResources) =
     (if length (Verbs resource) = 0 then
        filterResources opts gv rest (resources', apiResources)
      else if groupChanged opts \<and> o_APIGroup opts \<noteq> gv_Group gv then
        filterResources opts gv rest (resources', apiResources)
      else if nsChanged opts \<and> o_Namespaced opts \<noteq> Namespaced resource then
        filterResources opts gv rest (resources', apiResources)
      else if length (o_Verbs opts) > 0 \<and>
              \<not> HasAll (sets_New (Verbs resource)) (o_Verbs opts) then
        filterResources opts gv rest (resources', apiResources)
      else if length (o_Categories opts) > 0 \<and>
              \<not> HasAll (sets_New (Categories resource)) (o_Categories opts) then
        filterResources opts gv rest (resources', apiResources)
      else
        filterResources opts gv rest
          (resources' @ [\<lparr>APIGroup = gv_Group gv, APIGroupVersion = gv_String gv,
                          APIResource = resource\<rparr>],
           apiResources @ [resource]))"

text \<open>
  The outer loop (lines 280-325) over the buckets; the accumulators are \<^verbatim>\<open>resources\<close>
  and \<^verbatim>\<open>allResources\<close>.
\<close>

fun collect ::
  "APIResourceOptions \<Rightarrow> APIResourceList list \<Rightarrow>
   groupResource list \<times> APIResourceList list \<Rightarrow> groupResource list \<times> APIResourceList list" where
  "collect opts [] acc = acc"
| "collect opts (list # lists') (resources', allResources) =
     (if length (APIResources list) = 0 then collect opts lists' (resources', allResources)
      else (case ParseGroupVersion (GroupVersion list) of
              Inl err \<Rightarrow> collect opts lists' (resources', allResources)
            | Inr gv \<Rightarrow>
                (let apiList = \<lparr>TypeMeta_Kind = ''APIResourceList'', TypeMeta_APIVersion = ''v1'',
                                GroupVersion = gv_String gv, APIResources = []\<rparr>;
                     (resources'', apiResources) =
                        filterResources opts gv (APIResources list) (resources', [])
                 in collect opts lists'
                      (resources'', allResources @ [apiList\<lparr>APIResources := apiResources\<rparr>]))))"

text \<open>\<^verbatim>\<open>strings.Join\<close> of the Go library.\<close>

fun strings_Join :: "string list \<Rightarrow> string \<Rightarrow> string" where
  "strings_Join [] sep = []"
| "strings_Join [x] sep = x"
| "strings_Join (x # y # ys) sep = x @ sep @ strings_Join (y # ys) sep"

text \<open>
  \<open>printContextHeaders\<close> (lines 386-393): the text it writes and the error of the write.
\<close>

definition printContextHeaders :: "(string \<Rightarrow> error option) \<Rightarrow> string \<Rightarrow> string \<times> error option" where
  "printContextHeaders out output =
     (let columnNames = [''NAME'', ''SHORTNAMES'', ''APIVERSION'', ''NAMESPACED'', ''KIND''];
          columnNames = (if output = ''wide'' then columnNames @ [''VERBS'', ''CATEGORIES'']
                         else columnNames);
          line = strings_Join columnNames [CHR 0x09] @ [CHR 0x0A]
      in (line, out line))"

text \<open>
  What a run does to its collaborators, in order, and how it ends. A run-time panic (a nil
  dereference, an index out of range) is an outcome of its own. \<open>run_resources\<close> is the
  local slice \<^verbatim>\<open>resources\<close> as the function leaves it.
\<close>

datatype event =
  EvInvalidate
| EvServerPreferredResources
| EvWrite string
| EvPrintObj APIResourceList
| EvFlush

datatype outcome = Panic | Return "error option"

record run =
  run_trace :: "event list"
  run_resources :: "groupResource list"
  run_result :: outcome

text \<open>
  Lines 333-341: the list header is read from \<^verbatim>\<open>allResources[0]\<close>, which is an index
  out of range (\<open>None\<close>) on the empty slice; then the loop appends the resources of every
  bucket. \<^verbatim>\<open>GroupVersion\<close> stays the zero value.
\<close>

definition flatten :: "APIResourceList list \<Rightarrow> APIResourceList option" where
  "flatten allResources =
     (case allResources of
        [] \<Rightarrow> None
      | first # _ \<Rightarrow>
          Some (foldl (\<lambda>flatList resource.
                         flatList\<lparr>APIResources := APIResources flatList @ APIResources resource\<rparr>)
                  \<lparr>TypeMeta_Kind = TypeMeta_Kind first,
                   TypeMeta_APIVersion = TypeMeta_APIVersion first,
                   GroupVersion = [], APIResources = []\<rparr>
                  allResources))"

text \<open>
  Modelled from the spec: \<^verbatim>\<open>printers.GetNewTabWriter\<close> (line 263) is not under src/.
  The spec's output sink: "writes are flushed once at the end of the invocation". So the
  tab writer \<^verbatim>\<open>w\<close> over \<open>out\<close> buffers a text written to it and returns no error;
  \<open>out\<close> itself is written at the deferred \<^verbatim>\<open>w.Flush()\<close>, whose error the source drops.
\<close>

definition GetNewTabWriter :: "(string \<Rightarrow> error option) \<Rightarrow> string \<Rightarrow> error option" where
  "GetNewTabWriter out = (\<lambda>_. None)"

text \<open>
  Lines 327-331: the headers, written to the tab writer. \<open>Inl ()\<close> is the nil dereference
  of \<^verbatim>\<open>NoHeaders\<close> or of \<^verbatim>\<open>OutputFormat\<close>; otherwise the events and the error of
  \<open>printContextHeaders\<close>.
\<close>

definition headers :: "APIResourceOptions \<Rightarrow> unit + event list \<times> error option" where
  "headers opts =
     (case NoHeaders (PrintFlags opts) of
        None \<Rightarrow> Inl ()
      | Some noHeaders \<Rightarrow>
          if \<not> noHeaders \<and> (OutputFormat (PrintFlags opts) = None \<or>
                             OutputFormat (PrintFlags opts) = Some [] \<or>
                             OutputFormat (PrintFlags opts) = Some ''wide'') then
            (case OutputFormat (PrintFlags opts) of
               None \<Rightarrow> Inl ()
             | Some output \<Rightarrow>
                 (case printContextHeaders (GetNewTabWriter (Out opts)) output of
                    (line, err) \<Rightarrow> Inr ([EvWrite line], err)))
          else Inr ([], None))"

text \<open>
  \<open>RunAPIResources\<close>. The deferred \<^verbatim>\<open>w.Flush()\<close> ends every trace. \<open>errs\<close> receives the
  fetch error as in the source, which does not read it again: the function returns what
  \<^verbatim>\<open>PrintObj\<close> returns.
\<close>

definition RunAPIResources :: "APIResourceOptions \<Rightarrow> run" where
  "RunAPIResources opts =
     (case discoveryClient opts of
        None \<Rightarrow> \<lparr>run_trace = [EvFlush], run_resources = [], run_result = Panic\<rparr>
      | Some dc \<Rightarrow>
          (let t1 = (if \<not> Cached opts then [EvInvalidate] else []) @ [EvServerPreferredResources];
               (lists', err) = ServerPreferredResources dc (\<not> Cached opts);
               errs = (case err of Some e \<Rightarrow> [] @ [e] | None \<Rightarrow> []);
               (resources', allResources) = collect opts lists' ([], [])
           in (case headers opts of
                 Inl _ \<Rightarrow>
                   \<lparr>run_trace = t1 @ [EvFlush], run_resources = resources', run_result = Panic\<rparr>
               | Inr (t2, Some e) \<Rightarrow>
                   \<lparr>run_trace = t1 @ t2 @ [EvFlush], run_resources = resources',
                    run_result = Return (Some e)\<rparr>
               | Inr (t2, None) \<Rightarrow>
                   (case flatten allResources of
                      None \<Rightarrow>
                        \<lparr>run_trace = t1 @ t2 @ [EvFlush], run_resources = resources',
                         run_result = Panic\<rparr>
                    | Some flatList \<Rightarrow>
                        (let resources'' = resources (sort_Stable \<lparr>resources = resources',
                                                             sortBy = SortBy opts\<rparr>)
                         in (case PrintObj opts of
                               None \<Rightarrow>
                                 \<lparr>run_trace = t1 @ t2 @ [EvFlush], run_resources = resources'',
                                  run_result = Panic\<rparr>
                             | Some printObj \<Rightarrow>
                                 \<lparr>run_trace = t1 @ t2 @ [EvPrintObj flatList, EvFlush],
                                  run_resources = resources'',
                                  run_result = Return (printObj flatList)\<rparr>))))))"

section \<open>The command's \<open>Run\<close> closure (lines 186-190)\<close>

text \<open>
  Modelled from the spec: \<^verbatim>\<open>cmdutil.CheckErr\<close> is not under src/. The spec: an error
  "terminates the invocation with a non-zero status and a human-readable message", and
  configuration errors are "reported immediately, pipeline does not run". So the closure
  stops at the first call that returns an error.
\<close>

datatype exit = ExitOK | ExitFatal error | ExitPanic

definition Run ::
  "(printer \<Rightarrow> error + printer) \<Rightarrow> APIResourceOptions \<Rightarrow> RESTClientGetter \<Rightarrow> Command \<Rightarrow>
   string list \<Rightarrow> event list \<times> exit" where
  "Run WrapToPrinter opts restClientGetter cmd args =
     (case Complete WrapToPrinter opts restClientGetter cmd args of
        Inl err \<Rightarrow> ([], ExitFatal err)
      | Inr opts1 \<Rightarrow>
          (case Validate opts1 of
             Some err \<Rightarrow> ([], ExitFatal err)
           | None \<Rightarrow>
               (let r = RunAPIResources opts1
                in (run_trace r,
                    case run_result r of
                      Panic \<Rightarrow> ExitPanic
                    | Return None \<Rightarrow> ExitOK
                    | Return (Some err) \<Rightarrow> ExitFatal err))))"

section \<open>Auxiliary definitions for the proofs\<close>

text \<open>
  The full comparison key of \<open>Less\<close>: the primary field that \<open>compareValues\<close> selects,
  then the resource name. Lemma \<open>Less_iff\<close> shows that \<open>Less\<close> is the strict
  lexicographic order on this pair.
\<close>

definition sort_key_of :: "string \<Rightarrow> groupResource \<Rightarrow> string \<times> string" where
  "sort_key_of sb r =
     (if sb = ''name'' then Name (APIResource r)
      else if sb = ''kind'' then Kind (APIResource r)
      else APIGroup r, Name (APIResource r))"

text \<open>
  The list view of \<open>sift\<close>: the prefix is kept reversed (nearest element first), and the
  new element moves past every element with a greater key.
\<close>

fun insr :: "('a \<Rightarrow> 'k::linorder) \<Rightarrow> 'a \<Rightarrow> 'a list \<Rightarrow> 'a list" where
  "insr f x [] = [x]"
| "insr f x (y # ys) = (if f x < f y then y # insr f x ys else x # y # ys)"

definition go_sorted :: "('a \<Rightarrow> 'k::linorder) \<Rightarrow> 'a list \<Rightarrow> 'a list" where
  "go_sorted f xs = rev (foldl (\<lambda>rp x. insr f x rp) [] xs)"

text \<open>
  The two loops as list comprehensions: \<open>keeps\<close> is the negation of the five
  \<^verbatim>\<open>continue\<close> conditions of the inner loop, \<open>entry\<close> the appended \<^verbatim>\<open>groupResource\<close>,
  \<open>bucket_entries\<close> and \<open>bucket_lists\<close> what one bucket adds to \<^verbatim>\<open>resources\<close> and to
  \<^verbatim>\<open>allResources\<close>. Lemmas \<open>filterResources_eq\<close> and \<open>collect_eq\<close> relate them to the
  loops.
\<close>

definition keeps :: "APIResourceOptions \<Rightarrow> schema_GroupVersion \<Rightarrow> APIResource \<Rightarrow> bool" where
  "keeps opts gv resource =
     (\<not> length (Verbs resource) = 0 \<and>
      \<not> (groupChanged opts \<and> o_APIGroup opts \<noteq> gv_Group gv) \<and>
      \<not> (nsChanged opts \<and> o_Namespaced opts \<noteq> Namespaced resource) \<and>
      \<not> (length (o_Verbs opts) > 0 \<and> \<not> HasAll (sets_New (Verbs resource)) (o_Verbs opts)) \<and>
      \<not> (length (o_Categories opts) > 0 \<and>
         \<not> HasAll (sets_New (Categories resource)) (o_Categories opts)))"

definition entry :: "schema_GroupVersion \<Rightarrow> APIResource \<Rightarrow> groupResource" where
  "entry gv resource =
     \<lparr>APIGroup = gv_Group gv, APIGroupVersion = gv_String gv, APIResource = resource\<rparr>"

definition bucket_entries :: "APIResourceOptions \<Rightarrow> APIResourceList \<Rightarrow> groupResource list" where
  "bucket_entries opts list =
     (if length (APIResources list) = 0 then []
      else (case ParseGroupVersion (GroupVersion list) of
              Inl err \<Rightarrow> []
            | Inr gv \<Rightarrow> map (entry gv) (filter (keeps opts gv) (APIResources list))))"

definition bucket_lists :: "APIResourceOptions \<Rightarrow> APIResourceList \<Rightarrow> APIResourceList list" where
  "bucket_lists opts list =
     (if length (APIResources list) = 0 then []
      else (case ParseGroupVersion (GroupVersion list) of
              Inl err \<Rightarrow> []
            | Inr gv \<Rightarrow>
                [\<lparr>TypeMeta_Kind = ''APIResourceList'', TypeMeta_APIVersion = ''v1'',
                  GroupVersion = gv_String gv,
                  APIResources = filter (keeps opts gv) (APIResources list)\<rparr>]))"

section \<open>Concrete inputs: Scenario A of the spec\<close>

text \<open>
  The two buckets of Scenario A, as a server sends them: the records carry no group and
  no version of their own. \<open>deployments\<close> is given the category \<open>all\<close> in addition, for
  the category filter.
\<close>

definition mkResource :: "string \<Rightarrow> string \<Rightarrow> bool \<Rightarrow> string list \<Rightarrow> APIResource" where
  "mkResource n k ns vs =
     \<lparr>Name = n, SingularName = [], Namespaced = ns, Group = [], Version = [], Kind = k,
      Verbs = vs, ShortNames = [], Categories = [], StorageVersionHash = []\<rparr>"

definition mkBucket :: "string \<Rightarrow> APIResource list \<Rightarrow> APIResourceList" where
  "mkBucket gv rs =
     \<lparr>TypeMeta_Kind = [], TypeMeta_APIVersion = [], GroupVersion = gv, APIResources = rs\<rparr>"

definition deployments :: APIResource where
  "deployments =
     (mkResource ''deployments'' ''Deployment'' True [''get'', ''list''])\<lparr>Categories := [''all'']\<rparr>"

definition namespaces :: APIResource where
  "namespaces = mkResource ''namespaces'' ''Namespace'' False [''get'', ''list'']"

definition scenarioA :: "APIResourceList list" where
  "scenarioA = [mkBucket ''apps/v1'' [deployments], mkBucket ''v1'' [namespaces]]"

definition deploymentsEntry :: groupResource where
  "deploymentsEntry =
     \<lparr>APIGroup = ''apps'', APIGroupVersion = ''apps/v1'', APIResource = deployments\<rparr>"

definition namespacesEntry :: groupResource where
  "namespacesEntry = \<lparr>APIGroup = [], APIGroupVersion = ''v1'', APIResource = namespaces\<rparr>"

text \<open>A discovery client that returns the given buckets and error, cached or not.\<close>

definition mkClient :: "APIResourceList list \<Rightarrow> error option \<Rightarrow> discovery" where
  "mkClient ls err = \<lparr>ServerPreferredResources = (\<lambda>_. (ls, err))\<rparr>"

text \<open>
  The options as \<open>NewAPIResourceOptions\<close> and \<open>NewPrintFlags\<close> build them and \<open>Complete\<close>
  fills them in when no flag is given: \<open>Namespaced\<close> is true, the output format is the
  empty string, headers are printed, and every write and every print succeeds.
\<close>

definition mkPrintFlags :: PrintFlags where
  "mkPrintFlags =
     \<lparr>JSONYaml_AllowedFormats = [''json'', ''yaml''],
      JSONYaml_ToPrinter =
        (\<lambda>fmt. if fmt = ''json'' \<or> fmt = ''yaml'' then Inr (\<lambda>_. None)
               else Inl (NoCompatiblePrinterError fmt [''json'', ''yaml''])),
      Name_AllowedFormats = [''name''],
      Name_ToPrinter =
        (\<lambda>fmt. if fmt = ''name'' then Inr (\<lambda>_. None)
               else Inl (NoCompatiblePrinterError fmt [''name''])),
      HumanReadable_AllowedFormats = [''wide''],
      HumanReadable_ToPrinter =
        (\<lambda>_ fmt. if fmt = [] \<or> fmt = ''wide'' then Inr (\<lambda>_. None)
                 else Inl (NoCompatiblePrinterError fmt [''wide''])),
      NoHeaders = Some False,
      OutputFormat = Some []\<rparr>"

definition mkOptions :: "discovery \<Rightarrow> APIResourceOptions" where
  "mkOptions dc =
     \<lparr>SortBy = [], o_APIGroup = [], o_Namespaced = True, o_Verbs = [], Cached = False,
      o_Categories = [], groupChanged = False, nsChanged = False,
      discoveryClient = Some dc, Out = (\<lambda>_. None), PrintFlags = mkPrintFlags,
      PrintObj = Some (\<lambda>_. None)\<rparr>"

text \<open>
  Options with all four filters active: \<^verbatim>\<open>--api-group=apps --namespaced=true
  --verbs=list --categories=all\<close>.
\<close>

definition filterOptions :: APIResourceOptions where
  "filterOptions =
     (mkOptions (mkClient scenarioA None))
       \<lparr>o_APIGroup := ''apps'', groupChanged := True, nsChanged := True,
        o_Verbs := [''list''], o_Categories := [''all'']\<rparr>"

text \<open>A resource without verbs, and buckets that hold it or cannot be parsed.\<close>

definition noVerbs :: APIResource where
  "noVerbs = mkResource ''bindings'' ''Binding'' True []"

definition malformedBucket :: APIResourceList where
  "malformedBucket = mkBucket ''a/b/c'' [namespaces]"

text \<open>
  An entry with the comparison key of \<open>deploymentsEntry\<close> under every sort key, from
  another version of the group.
\<close>

definition deploymentsBeta :: groupResource where
  "deploymentsBeta = deploymentsEntry\<lparr>APIGroupVersion := ''apps/v1beta1''\<rparr>"

definition emptyVerbsCatalog :: "APIResourceList list" where
  "emptyVerbsCatalog = [mkBucket ''v1'' [noVerbs, namespaces]]"

text \<open>The list object with the header that \<open>collect\<close> gives every bucket.\<close>

definition mkFlatList :: "APIResource list \<Rightarrow> APIResourceList" where
  "mkFlatList rs =
     \<lparr>TypeMeta_Kind = ''APIResourceList'', TypeMeta_APIVersion = ''v1'', GroupVersion = [],
      APIResources = rs\<rparr>"

text \<open>
  A command line without arguments and without changed flags, over a client getter that
  succeeds; \<open>bogusOptions\<close> has the sort key of Scenario D.
\<close>

definition mkGetter :: "discovery \<Rightarrow> RESTClientGetter" where
  "mkGetter dc = \<lparr>ToDiscoveryClient = Inr dc\<rparr>"

definition mkCommand :: Command where
  "mkCommand = \<lparr>Changed = (\<lambda>_. False)\<rparr>"

definition bogusOptions :: APIResourceOptions where
  "bogusOptions = (mkOptions (mkClient scenarioA None))\<lparr>SortBy := ''bogus''\<rparr>"

section \<open>Lemmas\<close>

subsection \<open>The sort\<close>

lemma strings_Compare_simps:
  "strings_Compare a b > 0 \<longleftrightarrow> b < a"
  "strings_Compare a b = 0 \<longleftrightarrow> a = b"
  "strings_Compare a b < 0 \<longleftrightarrow> a < b"
  by (auto simp: strings_Compare_def)

lemma Less_iff:
  "Less s i j \<longleftrightarrow>
     sort_key_of (sortBy s) (resources s ! i) < sort_key_of (sortBy s) (resources s ! j)"
  by (auto simp: Less_def compareValues_def sort_key_of_def Let_def strings_Compare_simps
        less_prod_def)

lemma sortBy_Swap [simp]: "sortBy (Swap s i j) = sortBy s"
  by (simp add: Swap_def)

lemma resources_Swap_adjacent:
  "resources s = p @ y # x # t \<Longrightarrow>
   resources (Swap s (Suc (length p)) (length p)) = p @ x # y # t"
  by (simp add: Swap_def nth_append list_update_append)

lemma sift_eq:
  "resources s = p @ x # t \<Longrightarrow> length p = j \<Longrightarrow>
   sift s j = s\<lparr>resources := rev (insr (sort_key_of (sortBy s)) x (rev p)) @ t\<rparr>"
proof (induction j arbitrary: s p t)
  case 0
  then show ?case by simp
next
  case (Suc j)
  then obtain p' y where p: "p = p' @ [y]" and len: "length p' = j"
    by (cases p rule: rev_cases) auto
  have rs: "resources s = p' @ y # x # t"
    using Suc.prems(1) p by simp
  have nx: "resources s ! Suc j = x" and ny: "resources s ! j = y"
    using rs len by (simp_all add: nth_append)
  show ?case
  proof (cases "Less s (Suc j) j")
    case True
    then have lt: "sort_key_of (sortBy s) x < sort_key_of (sortBy s) y"
      by (simp add: Less_iff nx ny)
    have "resources (Swap s (Suc j) j) = p' @ x # (y # t)"
      using resources_Swap_adjacent [OF rs] len by simp
    from Suc.IH [OF this len]
    have "sift (Swap s (Suc j) j) j =
            (Swap s (Suc j) j)\<lparr>resources := rev (insr (sort_key_of (sortBy s)) x (rev p')) @ y # t\<rparr>"
      by simp
    then show ?thesis
      using True lt p by (simp add: Swap_def)
  next
    case False
    then have "\<not> sort_key_of (sortBy s) x < sort_key_of (sortBy s) y"
      by (simp add: Less_iff nx ny)
    then show ?thesis
      using False p Suc.prems(1) by simp
  qed
qed

lemma length_insr [simp]: "length (insr f x ys) = Suc (length ys)"
  by (induction ys) auto

lemma fold_sift_eq:
  "resources s = p @ t \<Longrightarrow> length p = k \<Longrightarrow>
   fold (\<lambda>i s. sift s i) [k..<k + length t] s =
     s\<lparr>resources := rev (foldl (\<lambda>rp x. insr (sort_key_of (sortBy s)) x rp) (rev p) t)\<rparr>"
proof (induction t arbitrary: s p k)
  case Nil
  then show ?case by simp
next
  case (Cons x t)
  let ?f = "sort_key_of (sortBy s)"
  let ?s' = "s\<lparr>resources := rev (insr ?f x (rev p)) @ t\<rparr>"
  have step: "sift s k = ?s'"
    using sift_eq [OF Cons.prems] .
  have len: "length (rev (insr ?f x (rev p))) = Suc k"
    using Cons.prems(2) by simp
  have "fold (\<lambda>i s. sift s i) [Suc k..<Suc k + length t] ?s' =
          ?s'\<lparr>resources := rev (foldl (\<lambda>rp x. insr (sort_key_of (sortBy ?s')) x rp)
                                 (rev (rev (insr ?f x (rev p)))) t)\<rparr>"
    using Cons.prems(2) by (intro Cons.IH) simp_all
  moreover have "[k..<k + length (x # t)] = k # [Suc k..<Suc k + length t]"
    by (subst upt_rec) simp
  ultimately show ?case
    using step by (simp del: upt_Suc)
qed


lemma resources_sort_Stable:
  "resources (sort_Stable s) = go_sorted (sort_key_of (sortBy s)) (resources s)"
proof (cases "resources s")
  case Nil
  then show ?thesis
    by (simp add: sort_Stable_def insertionSort_def Len_def go_sorted_def)
next
  case (Cons x t)
  then have rs: "resources s = [x] @ t" by simp
  have "fold (\<lambda>i s. sift s i) [1..<1 + length t] s =
          s\<lparr>resources := rev (foldl (\<lambda>rp x. insr (sort_key_of (sortBy s)) x rp) (rev [x]) t)\<rparr>"
    by (rule fold_sift_eq [OF rs]) simp
  then show ?thesis
    using Cons by (simp add: sort_Stable_def insertionSort_def Len_def go_sorted_def)
qed

lemma sortBy_sort_Stable: "sortBy (sort_Stable s) = sortBy s"
proof (cases "resources s")
  case Nil
  then show ?thesis
    by (simp add: sort_Stable_def insertionSort_def Len_def)
next
  case (Cons x t)
  then have rs: "resources s = [x] @ t" by simp
  have "fold (\<lambda>i s. sift s i) [1..<1 + length t] s =
          s\<lparr>resources := rev (foldl (\<lambda>rp x. insr (sort_key_of (sortBy s)) x rp) (rev [x]) t)\<rparr>"
    by (rule fold_sift_eq [OF rs]) simp
  then show ?thesis
    using Cons by (simp add: sort_Stable_def insertionSort_def Len_def)
qed

lemma mset_insr: "mset (insr f x ys) = add_mset x (mset ys)"
  by (induction ys) auto

lemma set_insr: "set (insr f x ys) = insert x (set ys)"
  by (induction ys) auto

lemma mset_foldl_insr: "mset (foldl (\<lambda>rp x. insr f x rp) rp xs) = mset rp + mset xs"
  by (induction xs arbitrary: rp) (auto simp: mset_insr)

lemma mset_go_sorted: "mset (go_sorted f xs) = mset xs"
  by (simp add: go_sorted_def mset_foldl_insr)

text \<open>The reversed prefix is in descending order of keys.\<close>

lemma desc_insr:
  "sorted_wrt (\<lambda>a b. f b \<le> f a) ys \<Longrightarrow> sorted_wrt (\<lambda>a b. f b \<le> f a) (insr f x ys)"
  by (induction ys) (auto simp: set_insr)

lemma desc_foldl_insr:
  "sorted_wrt (\<lambda>a b. f b \<le> f a) rp \<Longrightarrow>
   sorted_wrt (\<lambda>a b. f b \<le> f a) (foldl (\<lambda>rp x. insr f x rp) rp xs)"
  by (induction xs arbitrary: rp) (auto simp: desc_insr)

lemma sorted_go_sorted: "sorted (map f (go_sorted f xs))"
proof -
  have "sorted_wrt (\<lambda>a b. f b \<le> f a) (foldl (\<lambda>rp x. insr f x rp) [] xs)"
    by (rule desc_foldl_insr) simp
  then have "sorted_wrt (\<lambda>a b. f a \<le> f b) (go_sorted f xs)"
    by (simp add: go_sorted_def sorted_wrt_rev)
  then show ?thesis
    by (simp add: sorted_wrt_map)
qed

lemma filter_insr:
  "filter (\<lambda>y. f y = k) (insr f x ys) = filter (\<lambda>y. f y = k) [x] @ filter (\<lambda>y. f y = k) ys"
  by (induction ys) auto

lemma filter_rev_insr:
  "filter (\<lambda>y. f y = k) (rev (insr f x ys)) =
   filter (\<lambda>y. f y = k) (rev ys) @ filter (\<lambda>y. f y = k) [x]"
  unfolding rev_filter [symmetric] filter_insr by simp

lemma filter_foldl_insr:
  "filter (\<lambda>y. f y = k) (rev (foldl (\<lambda>rp x. insr f x rp) rp xs)) =
   filter (\<lambda>y. f y = k) (rev rp) @ filter (\<lambda>y. f y = k) xs"
  by (induction xs arbitrary: rp) (simp_all add: filter_rev_insr)

lemma stable_go_sorted: "filter (\<lambda>y. f y = k) (go_sorted f xs) = filter (\<lambda>y. f y = k) xs"
  by (simp add: go_sorted_def filter_foldl_insr)

lemma go_sorted_sort_key: "go_sorted f xs = sort_key f xs"
proof (rule sym, rule properties_for_sort_key)
  show "mset (go_sorted f xs) = mset xs" by (rule mset_go_sorted)
  show "sorted (map f (go_sorted f xs))" by (rule sorted_go_sorted)
  fix k
  have "filter (\<lambda>y. f y = f k) (go_sorted f xs) = filter (\<lambda>y. f y = f k) xs"
    by (rule stable_go_sorted)
  then show "filter (\<lambda>x. f k = f x) (go_sorted f xs) = filter (\<lambda>x. f k = f x) xs"
    by (simp add: eq_commute)
qed

lemma resources_sort_Stable_sort_key:
  "resources (sort_Stable s) = sort_key (sort_key_of (sortBy s)) (resources s)"
  by (simp add: resources_sort_Stable go_sorted_sort_key)

lemma sort_Stable_unique:
  assumes "mset ys = mset (resources s)"
    and "sorted (map (sort_key_of (sortBy s)) ys)"
    and "\<And>k. filter (\<lambda>y. sort_key_of (sortBy s) y = k) ys =
              filter (\<lambda>y. sort_key_of (sortBy s) y = k) (resources s)"
  shows "ys = resources (sort_Stable s)"
proof -
  have "sort_key (sort_key_of (sortBy s)) (resources s) = ys"
  proof (rule properties_for_sort_key)
    show "mset ys = mset (resources s)" by (rule assms(1))
    show "sorted (map (sort_key_of (sortBy s)) ys)" by (rule assms(2))
    fix k
    show "filter (\<lambda>x. sort_key_of (sortBy s) k = sort_key_of (sortBy s) x) ys =
          filter (\<lambda>x. sort_key_of (sortBy s) k = sort_key_of (sortBy s) x) (resources s)"
      using assms(3) [of "sort_key_of (sortBy s) k"] by (simp add: eq_commute)
  qed
  then show ?thesis
    by (simp add: resources_sort_Stable_sort_key)
qed

lemma set_sort_Stable: "set (resources (sort_Stable s)) = set (resources s)"
  by (simp add: resources_sort_Stable_sort_key)

subsection \<open>The loops\<close>

lemma filterResources_eq:
  "filterResources opts gv rs (a, b) =
     (a @ map (entry gv) (filter (keeps opts gv) rs), b @ filter (keeps opts gv) rs)"
  by (induction rs arbitrary: a b) (simp_all add: keeps_def entry_def)

lemma collect_eq:
  "collect opts ls (a, b) =
     (a @ concat (map (bucket_entries opts) ls), b @ concat (map (bucket_lists opts) ls))"
proof (induction ls arbitrary: a b)
  case Nil
  then show ?case by simp
next
  case (Cons l ls)
  show ?case
  proof (cases "length (APIResources l) = 0")
    case True
    then show ?thesis
      using Cons.IH by (simp add: bucket_entries_def bucket_lists_def)
  next
    case False
    then show ?thesis
      using Cons.IH
      by (cases "ParseGroupVersion (GroupVersion l)")
         (simp_all add: bucket_entries_def bucket_lists_def filterResources_eq)
  qed
qed

lemma foldl_flatten:
  "foldl (\<lambda>flatList resource.
            flatList\<lparr>APIResources := APIResources flatList @ APIResources resource\<rparr>) fl xs =
   fl\<lparr>APIResources := APIResources fl @ concat (map APIResources xs)\<rparr>"
  by (induction xs arbitrary: fl) simp_all

lemma flatten_Some:
  "flatten allResources = Some fl \<Longrightarrow>
   APIResources fl = concat (map APIResources allResources) \<and> GroupVersion fl = []"
  by (auto simp: flatten_def foldl_flatten split: list.splits)

text \<open>
  The records of the flattened list are the resources of the entries of \<^verbatim>\<open>resources\<close>
  in the order of the loops, before the sort.
\<close>

lemma bucket_lists_entries:
  "concat (map APIResources (bucket_lists opts l)) = map APIResource (bucket_entries opts l)"
  by (simp add: bucket_lists_def bucket_entries_def entry_def comp_def split: sum.splits)

lemma flatten_collect:
  assumes "flatten (snd (collect opts ls ([], []))) = Some fl"
  shows "APIResources fl = map APIResource (fst (collect opts ls ([], [])))"
proof -
  have "concat (map APIResources (concat (map (bucket_lists opts) ls))) =
        map APIResource (concat (map (bucket_entries opts) ls))"
    by (induction ls) (simp_all add: bucket_lists_entries)
  then show ?thesis
    using flatten_Some [OF assms] by (simp add: collect_eq)
qed

lemma flatten_None: "flatten allResources = None \<longleftrightarrow> allResources = []"
  by (simp add: flatten_def split: list.splits)

lemma keeps_SortBy [simp]: "keeps (opts\<lparr>SortBy := sb\<rparr>) = keeps opts"
  by (simp add: keeps_def fun_eq_iff)

lemma bucket_entries_SortBy [simp]:
  "bucket_entries (opts\<lparr>SortBy := sb\<rparr>) = bucket_entries opts"
  by (simp add: bucket_entries_def fun_eq_iff split: sum.splits)

lemma bucket_lists_SortBy [simp]:
  "bucket_lists (opts\<lparr>SortBy := sb\<rparr>) = bucket_lists opts"
  by (simp add: bucket_lists_def fun_eq_iff split: sum.splits)

lemma collect_SortBy [simp]: "collect (opts\<lparr>SortBy := sb\<rparr>) ls acc = collect opts ls acc"
  by (cases acc) (simp add: collect_eq)

lemma headers_SortBy [simp]: "headers (opts\<lparr>SortBy := sb\<rparr>) = headers opts"
  by (simp add: headers_def split: option.splits)

lemma bucket_entries_keeps:
  "e \<in> set (bucket_entries opts l) \<Longrightarrow>
   \<exists>gv r. e = entry gv r \<and> keeps opts gv r"
  by (auto simp: bucket_entries_def split: if_splits sum.splits)

lemma bucket_lists_keeps:
  "al \<in> set (bucket_lists opts l) \<Longrightarrow> r \<in> set (APIResources al) \<Longrightarrow>
   \<exists>gv. keeps opts gv r"
  by (auto simp: bucket_lists_def split: if_splits sum.splits)

text \<open>Every entry of \<^verbatim>\<open>resources\<close> comes from a kept resource, sorted or not.\<close>

lemma run_resources_subset:
  assumes "e \<in> set (run_resources (RunAPIResources opts))"
  shows "\<exists>dc. discoveryClient opts = Some dc \<and>
           e \<in> set (fst (collect opts (fst (ServerPreferredResources dc (\<not> Cached opts))) ([], [])))"
proof (cases "discoveryClient opts")
  case None
  then show ?thesis
    using assms by (simp add: RunAPIResources_def)
next
  case (Some dc)
  obtain ls err where f: "ServerPreferredResources dc (\<not> Cached opts) = (ls, err)"
    by (cases "ServerPreferredResources dc (\<not> Cached opts)")
  obtain rs al where c: "collect opts ls ([], []) = (rs, al)"
    by (cases "collect opts ls ([], [])")
  have "e \<in> set rs"
    using assms Some f c
    by (auto simp: RunAPIResources_def Let_def set_sort_Stable
          split: sum.splits option.splits prod.splits)
  then show ?thesis
    using Some f c by simp
qed

text \<open>The object handed to the printer is the flattening of \<^verbatim>\<open>allResources\<close>.\<close>

lemma run_trace_PrintObj:
  assumes "EvPrintObj fl \<in> set (run_trace (RunAPIResources opts))"
  shows "\<exists>dc. discoveryClient opts = Some dc \<and>
           flatten (snd (collect opts (fst (ServerPreferredResources dc (\<not> Cached opts)))
                      ([], []))) = Some fl"
proof (cases "discoveryClient opts")
  case None
  then show ?thesis
    using assms by (simp add: RunAPIResources_def)
next
  case (Some dc)
  obtain ls err where f: "ServerPreferredResources dc (\<not> Cached opts) = (ls, err)"
    by (cases "ServerPreferredResources dc (\<not> Cached opts)")
  obtain rs al where c: "collect opts ls ([], []) = (rs, al)"
    by (cases "collect opts ls ([], [])")
  have "flatten al = Some fl"
    using assms Some f c
    by (auto simp: RunAPIResources_def Let_def headers_def printContextHeaders_def
          split: sum.splits option.splits prod.splits if_splits)
  then show ?thesis
    using Some f c by simp
qed

subsection \<open>Runs\<close>

lemma keeps_discoveryClient [simp]: "keeps (opts\<lparr>discoveryClient := d\<rparr>) = keeps opts"
  by (simp add: keeps_def fun_eq_iff)

lemma bucket_entries_discoveryClient [simp]:
  "bucket_entries (opts\<lparr>discoveryClient := d\<rparr>) = bucket_entries opts"
  by (simp add: bucket_entries_def fun_eq_iff split: sum.splits)

lemma bucket_lists_discoveryClient [simp]:
  "bucket_lists (opts\<lparr>discoveryClient := d\<rparr>) = bucket_lists opts"
  by (simp add: bucket_lists_def fun_eq_iff split: sum.splits)

lemma collect_discoveryClient [simp]:
  "collect (opts\<lparr>discoveryClient := d\<rparr>) ls acc = collect opts ls acc"
  by (cases acc) (simp add: collect_eq)

lemma headers_discoveryClient [simp]: "headers (opts\<lparr>discoveryClient := d\<rparr>) = headers opts"
  by (simp add: headers_def split: option.splits)

lemma collect_skips_malformed:
  "ParseGroupVersion (GroupVersion b) = Inl err \<Longrightarrow>
   collect opts (pre @ b # post) acc = collect opts (pre @ post) acc"
  by (cases acc) (simp add: collect_eq bucket_entries_def bucket_lists_def)

text \<open>The fetch error has no influence on a run.\<close>

lemma fetch_error_ignored:
  "RunAPIResources (opts\<lparr>discoveryClient := Some (mkClient ls e1)\<rparr>) =
   RunAPIResources (opts\<lparr>discoveryClient := Some (mkClient ls e2)\<rparr>)"
  by (simp add: RunAPIResources_def mkClient_def Let_def
        split: option.splits sum.splits prod.splits)

text \<open>
  When every bucket is empty or malformed, \<^verbatim>\<open>allResources\<close> is empty and no run returns
  nil.
\<close>

lemma empty_allResources_no_success:
  assumes "discoveryClient opts = Some dc"
    and "\<forall>l \<in> set (fst (ServerPreferredResources dc (\<not> Cached opts))).
           APIResources l = [] \<or> (\<exists>err. ParseGroupVersion (GroupVersion l) = Inl err)"
  shows "run_result (RunAPIResources opts) \<noteq> Return None"
proof -
  obtain ls err where f: "ServerPreferredResources dc (\<not> Cached opts) = (ls, err)"
    by (cases "ServerPreferredResources dc (\<not> Cached opts)")
  have "bucket_lists opts l = []" if "l \<in> set ls" for l
    using assms(2) that f by (auto simp: bucket_lists_def)
  then have "concat (map (bucket_lists opts) ls) = []"
    by simp
  then have "snd (collect opts ls ([], [])) = []"
    by (simp add: collect_eq)
  then have "flatten (snd (collect opts ls ([], []))) = None"
    by (simp add: flatten_None)
  then show ?thesis
    using assms(1) f
    by (auto simp: RunAPIResources_def Let_def split: sum.splits option.splits prod.splits)
qed

lemma Complete_SortBy:
  "Complete W opts g cmd args = Inr opts1 \<Longrightarrow> SortBy opts1 = SortBy opts"
  by (auto simp: Complete_def Let_def split: if_splits sum.splits option.splits)

lemma Validate_eq:
  "Validate opts =
     (if SortBy opts \<noteq> [] \<and> SortBy opts \<noteq> ''name'' \<and> SortBy opts \<noteq> ''kind''
      then Some (Err ''--sort-by accepts only name or kind'') else None)"
  by (simp add: Validate_def Has_def sets_New_def)

text \<open>
  With a discovery client set, \<^verbatim>\<open>resources\<close> holds the entries the loops collected,
  sorted or not.
\<close>

lemma set_run_resources:
  "set (run_resources (RunAPIResources (opts\<lparr>discoveryClient := Some (mkClient ls ferr)\<rparr>))) =
   set (fst (collect opts ls ([], [])))"
  by (simp add: RunAPIResources_def mkClient_def Let_def set_sort_Stable
        split: option.splits sum.splits prod.splits)

lemma printed_resources:
  assumes "EvPrintObj fl \<in>
             set (run_trace (RunAPIResources (opts\<lparr>discoveryClient := Some (mkClient ls ferr)\<rparr>)))"
  shows "APIResources fl = map APIResource (fst (collect opts ls ([], [])))"
proof -
  have "flatten (snd (collect opts ls ([], []))) = Some fl"
    using run_trace_PrintObj [OF assms] by (simp add: mkClient_def)
  then show ?thesis
    by (rule flatten_collect)
qed

lemma kept_entry_collected:
  assumes "l \<in> set ls" and "r \<in> set (APIResources l)"
    and "ParseGroupVersion (GroupVersion l) = Inr gv" and "keeps opts gv r"
  shows "entry gv r \<in> set (fst (collect opts ls ([], [])))"
proof -
  have "entry gv r \<in> set (bucket_entries opts l)"
    using assms(2-4) by (auto simp: bucket_entries_def)
  then show ?thesis
    using assms(1) by (auto simp: collect_eq)
qed

section \<open>The claims\<close>

text \<open>
  C1. For every catalog and every filter configuration, every entry that the loops append
  to \<^verbatim>\<open>resources\<close>, and every entry of \<^verbatim>\<open>resources\<close> as \<open>RunAPIResources\<close> leaves it,
  satisfies all active predicates: its group is the requested one when the group filter
  is active, its namespaced flag is the requested one when that filter is active, its
  verbs include the requested verbs when the list is not empty, and its categories
  include the requested categories when the list is not empty.
\<close>

theorem C1_output_satisfies_filters:
  "\<forall>e \<in> set (fst (collect opts ls ([], []))) \<union> set (run_resources (RunAPIResources opts)).
     (groupChanged opts \<longrightarrow> APIGroup e = o_APIGroup opts) \<and>
     (nsChanged opts \<longrightarrow> Namespaced (APIResource e) = o_Namespaced opts) \<and>
     (o_Verbs opts \<noteq> [] \<longrightarrow> set (o_Verbs opts) \<subseteq> set (Verbs (APIResource e))) \<and>
     (o_Categories opts \<noteq> [] \<longrightarrow>
        set (o_Categories opts) \<subseteq> set (Categories (APIResource e)))"
proof
  fix e
  assume "e \<in> set (fst (collect opts ls ([], []))) \<union> set (run_resources (RunAPIResources opts))"
  then obtain ls' where "e \<in> set (fst (collect opts ls' ([], [])))"
    using run_resources_subset [of e opts] by auto
  then obtain l where "e \<in> set (bucket_entries opts l)"
    by (auto simp: collect_eq)
  then obtain gv r where e: "e = entry gv r" and k: "keeps opts gv r"
    using bucket_entries_keeps by blast
  show "(groupChanged opts \<longrightarrow> APIGroup e = o_APIGroup opts) \<and>
     (nsChanged opts \<longrightarrow> Namespaced (APIResource e) = o_Namespaced opts) \<and>
     (o_Verbs opts \<noteq> [] \<longrightarrow> set (o_Verbs opts) \<subseteq> set (Verbs (APIResource e))) \<and>
     (o_Categories opts \<noteq> [] \<longrightarrow>
        set (o_Categories opts) \<subseteq> set (Categories (APIResource e)))"
    using k unfolding e
    by (auto simp: keeps_def entry_def HasAll_def Has_def sets_New_def list_all_iff)
qed

theorem C1_output_satisfies_filters_witness:
  "groupChanged filterOptions \<and> nsChanged filterOptions \<and>
   o_Verbs filterOptions \<noteq> [] \<and> o_Categories filterOptions \<noteq> [] \<and>
   fst (collect filterOptions scenarioA ([], [])) = [deploymentsEntry] \<and>
   run_resources (RunAPIResources filterOptions) = [deploymentsEntry] \<and>
   APIGroup deploymentsEntry = o_APIGroup filterOptions \<and>
   Namespaced (APIResource deploymentsEntry) = o_Namespaced filterOptions \<and>
   set (o_Verbs filterOptions) \<subseteq> set (Verbs (APIResource deploymentsEntry)) \<and>
   set (o_Categories filterOptions) \<subseteq> set (Categories (APIResource deploymentsEntry))"
proof -
  have run: "run_resources (RunAPIResources filterOptions) = [deploymentsEntry]"
    by code_simp
  have act: "groupChanged filterOptions" "nsChanged filterOptions"
    "o_Verbs filterOptions \<noteq> []" "o_Categories filterOptions \<noteq> []"
    by (simp_all add: filterOptions_def mkOptions_def)
  have col: "fst (collect filterOptions scenarioA ([], [])) = [deploymentsEntry]"
    by code_simp
  have "deploymentsEntry \<in>
          set (fst (collect filterOptions scenarioA ([], []))) \<union>
          set (run_resources (RunAPIResources filterOptions))"
    by (simp add: run)
  with C1_output_satisfies_filters [of filterOptions scenarioA] act run col
  show ?thesis by blast
qed

text \<open>
  C2, at Scenario A without filters and with the sort key unset: the object handed to the
  printer lists \<open>deployments\<close> before \<open>namespaces\<close>, the order of the catalog, while the
  sorted \<^verbatim>\<open>resources\<close> has \<open>namespaces\<close> first; and neither the list object nor its
  records carry the group-version \<open>apps/v1\<close> of \<open>deployments\<close>.
\<close>

theorem C2_printed_list_unsorted:
  "run_trace (RunAPIResources (mkOptions (mkClient scenarioA None))) =
     [EvInvalidate, EvServerPreferredResources,
      EvWrite (fst (printContextHeaders (\<lambda>_. None) [])),
      EvPrintObj (mkFlatList [deployments, namespaces]), EvFlush] \<and>
   run_resources (RunAPIResources (mkOptions (mkClient scenarioA None))) =
     [namespacesEntry, deploymentsEntry] \<and>
   APIGroupVersion deploymentsEntry = ''apps/v1'' \<and>
   GroupVersion (mkFlatList [deployments, namespaces]) = [] \<and>
   Group deployments = [] \<and> Version deployments = []"
proof -
  have "run_trace (RunAPIResources (mkOptions (mkClient scenarioA None))) =
     [EvInvalidate, EvServerPreferredResources,
      EvWrite (fst (printContextHeaders (\<lambda>_. None) [])),
      EvPrintObj (mkFlatList [deployments, namespaces]), EvFlush]"
    by code_simp
  moreover have "run_resources (RunAPIResources (mkOptions (mkClient scenarioA None))) =
     [namespacesEntry, deploymentsEntry]"
    by code_simp
  moreover have "APIGroupVersion deploymentsEntry = ''apps/v1''"
    by (simp add: deploymentsEntry_def)
  moreover have "GroupVersion (mkFlatList [deployments, namespaces]) = []"
    by (simp add: mkFlatList_def)
  moreover have "Group deployments = [] \<and> Version deployments = []"
    by (simp add: deployments_def mkResource_def)
  ultimately show ?thesis by blast
qed

text \<open>
  C3. For every list of entries, sorting by \<open>name\<close> gives non-decreasing resource names;
  sorting by \<open>kind\<close> gives non-decreasing kinds, and of two entries with equal kinds the
  earlier one has the smaller or equal name; sorting with the empty key orders by the API
  group with the name as tie-break. Strings are compared byte-wise, lexicographically. The
  sorted slice is a permutation of the input.
\<close>

theorem C3_sorted_by_key:
  "sorted_wrt (\<lambda>a b. Name (APIResource a) \<le> Name (APIResource b))
     (resources (sort_Stable \<lparr>resources = xs, sortBy = ''name''\<rparr>)) \<and>
   sorted_wrt (\<lambda>a b. Kind (APIResource a) \<le> Kind (APIResource b))
     (resources (sort_Stable \<lparr>resources = xs, sortBy = ''kind''\<rparr>)) \<and>
   sorted_wrt (\<lambda>a b. Kind (APIResource a) < Kind (APIResource b) \<or>
                      Kind (APIResource a) = Kind (APIResource b) \<and>
                      Name (APIResource a) \<le> Name (APIResource b))
     (resources (sort_Stable \<lparr>resources = xs, sortBy = ''kind''\<rparr>)) \<and>
   sorted_wrt (\<lambda>a b. APIGroup a < APIGroup b \<or>
                      APIGroup a = APIGroup b \<and>
                      Name (APIResource a) \<le> Name (APIResource b))
     (resources (sort_Stable \<lparr>resources = xs, sortBy = []\<rparr>)) \<and>
   (\<forall>sb. mset (resources (sort_Stable \<lparr>resources = xs, sortBy = sb\<rparr>)) = mset xs)"
proof -
  have key: "sorted_wrt (\<lambda>a b. sort_key_of sb a \<le> sort_key_of sb b)
               (resources (sort_Stable \<lparr>resources = xs, sortBy = sb\<rparr>))" for sb
    using sorted_go_sorted [of "sort_key_of sb" xs]
    by (simp add: resources_sort_Stable sorted_wrt_map)
  have name: "sorted_wrt (\<lambda>a b. Name (APIResource a) \<le> Name (APIResource b))
                (resources (sort_Stable \<lparr>resources = xs, sortBy = ''name''\<rparr>))"
    by (rule sorted_wrt_mono_rel [OF _ key [of "''name''"]])
       (auto simp: sort_key_of_def less_eq_prod_def)
  have kind: "sorted_wrt (\<lambda>a b. Kind (APIResource a) < Kind (APIResource b) \<or>
                      Kind (APIResource a) = Kind (APIResource b) \<and>
                      Name (APIResource a) \<le> Name (APIResource b))
                (resources (sort_Stable \<lparr>resources = xs, sortBy = ''kind''\<rparr>))"
    by (rule sorted_wrt_mono_rel [OF _ key [of "''kind''"]])
       (auto simp: sort_key_of_def less_eq_prod_def)
  have kind': "sorted_wrt (\<lambda>a b. Kind (APIResource a) \<le> Kind (APIResource b))
                (resources (sort_Stable \<lparr>resources = xs, sortBy = ''kind''\<rparr>))"
    by (rule sorted_wrt_mono_rel [OF _ kind]) auto
  have grp: "sorted_wrt (\<lambda>a b. APIGroup a < APIGroup b \<or>
                      APIGroup a = APIGroup b \<and>
                      Name (APIResource a) \<le> Name (APIResource b))
                (resources (sort_Stable \<lparr>resources = xs, sortBy = []\<rparr>))"
    by (rule sorted_wrt_mono_rel [OF _ key [of "[]"]])
       (auto simp: sort_key_of_def less_eq_prod_def)
  have perm: "mset (resources (sort_Stable \<lparr>resources = xs, sortBy = sb\<rparr>)) = mset xs" for sb
    by (simp add: resources_sort_Stable mset_go_sorted)
  show ?thesis
    using name kind kind' grp perm by blast
qed

text \<open>
  C4. The sort is stable: for every input list, sort key and comparison key \<open>k\<close> (primary
  field and resource name), the entries with the key \<open>k\<close> are in the sorted slice in the
  order they have in the input.
\<close>

theorem C4_sort_stable:
  "filter (\<lambda>e. sort_key_of sb e = k) (resources (sort_Stable \<lparr>resources = xs, sortBy = sb\<rparr>)) =
   filter (\<lambda>e. sort_key_of sb e = k) xs"
  by (simp add: resources_sort_Stable stable_go_sorted)

theorem C4_sort_stable_witness:
  "resources (sort_Stable \<lparr>resources = [deploymentsBeta, namespacesEntry, deploymentsEntry],
                           sortBy = []\<rparr>) =
     [namespacesEntry, deploymentsBeta, deploymentsEntry] \<and>
   filter (\<lambda>e. sort_key_of [] e = (''apps'', ''deployments''))
     (resources (sort_Stable \<lparr>resources = [deploymentsBeta, namespacesEntry, deploymentsEntry],
                             sortBy = []\<rparr>)) =
     [deploymentsBeta, deploymentsEntry]"
proof -
  have "filter (\<lambda>e. sort_key_of [] e = (''apps'', ''deployments''))
          [deploymentsBeta, namespacesEntry, deploymentsEntry] =
        [deploymentsBeta, deploymentsEntry]"
    by (simp add: sort_key_of_def deploymentsBeta_def deploymentsEntry_def namespacesEntry_def
          deployments_def namespaces_def mkResource_def)
  moreover have "resources (sort_Stable
          \<lparr>resources = [deploymentsBeta, namespacesEntry, deploymentsEntry], sortBy = []\<rparr>) =
        [namespacesEntry, deploymentsBeta, deploymentsEntry]"
    by code_simp
  ultimately show ?thesis
    using C4_sort_stable [of "[]" "(''apps'', ''deployments'')"
            "[deploymentsBeta, namespacesEntry, deploymentsEntry]"]
    by (simp only:)
qed

text \<open>
  C5, at the empty catalog: the read of \<^verbatim>\<open>allResources[0]\<close> is out of range and the run
  panics after the headers are written; nothing is handed to the printer.
\<close>

theorem C5_empty_catalog_panics:
  "RunAPIResources (mkOptions (mkClient [] None)) =
     \<lparr>run_trace = [EvInvalidate, EvServerPreferredResources,
                   EvWrite (fst (printContextHeaders (\<lambda>_. None) [])), EvFlush],
      run_resources = [], run_result = Panic\<rparr>"
  by code_simp

text \<open>
  C6, at Scenario A returned together with a fetch error: the partial data is filtered,
  sorted and printed, and the run returns nil, the result of the printer; the fetch error
  is lost.
\<close>

theorem C6_fetch_error_not_returned:
  "run_result (RunAPIResources (mkOptions (mkClient scenarioA (Some (Err ''timeout''))))) =
     Return None \<and>
   EvPrintObj (mkFlatList [deployments, namespaces]) \<in>
     set (run_trace (RunAPIResources (mkOptions (mkClient scenarioA (Some (Err ''timeout''))))))"
proof -
  have "run_result (RunAPIResources (mkOptions (mkClient scenarioA (Some (Err ''timeout''))))) =
          Return None"
    by code_simp
  moreover have "EvPrintObj (mkFlatList [deployments, namespaces]) \<in>
     set (run_trace (RunAPIResources (mkOptions (mkClient scenarioA (Some (Err ''timeout''))))))"
    by code_simp
  ultimately show ?thesis by blast
qed

text \<open>
  C7. For every catalog and every filter configuration, a resource with an empty verb
  set is in no output of \<open>RunAPIResources\<close>: not among the entries of \<^verbatim>\<open>resources\<close>, and
  not in the flattened list object handed to the printer.
\<close>

theorem C7_no_empty_verbs:
  "(\<forall>e \<in> set (run_resources (RunAPIResources opts)). Verbs (APIResource e) \<noteq> []) \<and>
   (\<forall>fl. EvPrintObj fl \<in> set (run_trace (RunAPIResources opts)) \<longrightarrow>
      (\<forall>r \<in> set (APIResources fl). Verbs r \<noteq> []))"
proof (intro conjI ballI allI impI)
  fix e
  assume "e \<in> set (run_resources (RunAPIResources opts))"
  then obtain ls' where "e \<in> set (fst (collect opts ls' ([], [])))"
    using run_resources_subset [of e opts] by auto
  then obtain l where "e \<in> set (bucket_entries opts l)"
    by (auto simp: collect_eq)
  then obtain gv r where "e = entry gv r" and "keeps opts gv r"
    using bucket_entries_keeps by blast
  then show "Verbs (APIResource e) \<noteq> []"
    by (simp add: keeps_def entry_def)
next
  fix fl r
  assume "EvPrintObj fl \<in> set (run_trace (RunAPIResources opts))"
    and r: "r \<in> set (APIResources fl)"
  then obtain ls' where "flatten (snd (collect opts ls' ([], []))) = Some fl"
    using run_trace_PrintObj [of fl opts] by auto
  then have "APIResources fl = concat (map APIResources (snd (collect opts ls' ([], []))))"
    using flatten_Some by blast
  with r obtain al l where "al \<in> set (bucket_lists opts l)" and "r \<in> set (APIResources al)"
    by (auto simp: collect_eq)
  then obtain gv where "keeps opts gv r"
    using bucket_lists_keeps by blast
  then show "Verbs r \<noteq> []"
    by (simp add: keeps_def)
qed

theorem C7_no_empty_verbs_witness:
  "Verbs noVerbs = [] \<and>
   run_resources (RunAPIResources (mkOptions (mkClient emptyVerbsCatalog None))) =
     [namespacesEntry] \<and>
   Verbs (APIResource namespacesEntry) \<noteq> [] \<and>
   EvPrintObj (mkFlatList [namespaces]) \<in>
     set (run_trace (RunAPIResources (mkOptions (mkClient emptyVerbsCatalog None)))) \<and>
   Verbs namespaces \<noteq> []"
proof -
  let ?R = "RunAPIResources (mkOptions (mkClient emptyVerbsCatalog None))"
  have nv: "Verbs noVerbs = []"
    by (simp add: noVerbs_def mkResource_def)
  have run: "run_resources ?R = [namespacesEntry]"
    by code_simp
  have pr: "EvPrintObj (mkFlatList [namespaces]) \<in> set (run_trace ?R)"
    by code_simp
  have ns: "namespaces \<in> set (APIResources (mkFlatList [namespaces]))"
    by (simp add: mkFlatList_def)
  have "namespacesEntry \<in> set (run_resources ?R)"
    by (simp add: run)
  with C7_no_empty_verbs [of "mkOptions (mkClient emptyVerbsCatalog None)"] nv run pr ns
  show ?thesis by blast
qed

text \<open>
  C8. \<open>Validate\<close> returns an error if and only if the sort key is a non-empty string
  other than \<open>name\<close> and \<open>kind\<close>; the empty key, \<open>name\<close> and \<open>kind\<close> are accepted. With
  such a key the command's run ends with an error before \<open>RunAPIResources\<close> is called:
  nothing is invalidated, fetched, written or printed.
\<close>

theorem C8_Validate_sort_key:
  "((\<exists>err. Validate opts = Some err) \<longleftrightarrow>
      (SortBy opts \<noteq> [] \<and> SortBy opts \<noteq> ''name'' \<and> SortBy opts \<noteq> ''kind'')) \<and>
   (SortBy opts \<noteq> [] \<and> SortBy opts \<noteq> ''name'' \<and> SortBy opts \<noteq> ''kind'' \<longrightarrow>
      fst (Run W opts g cmd args) = [] \<and> (\<exists>err. snd (Run W opts g cmd args) = ExitFatal err))"
proof (intro conjI impI)
  show "(\<exists>err. Validate opts = Some err) \<longleftrightarrow>
          (SortBy opts \<noteq> [] \<and> SortBy opts \<noteq> ''name'' \<and> SortBy opts \<noteq> ''kind'')"
    by (simp add: Validate_eq)
next
  assume bad: "SortBy opts \<noteq> [] \<and> SortBy opts \<noteq> ''name'' \<and> SortBy opts \<noteq> ''kind''"
  show "fst (Run W opts g cmd args) = []"
  proof (cases "Complete W opts g cmd args")
    case (Inl err)
    then show ?thesis by (simp add: Run_def)
  next
    case (Inr opts1)
    then have "SortBy opts1 = SortBy opts" by (rule Complete_SortBy)
    with bad have "Validate opts1 = Some (Err ''--sort-by accepts only name or kind'')"
      by (simp add: Validate_eq)
    with Inr show ?thesis by (simp add: Run_def)
  qed
  show "\<exists>err. snd (Run W opts g cmd args) = ExitFatal err"
  proof (cases "Complete W opts g cmd args")
    case (Inl err)
    then show ?thesis by (simp add: Run_def)
  next
    case (Inr opts1)
    then have "SortBy opts1 = SortBy opts" by (rule Complete_SortBy)
    with bad have "Validate opts1 = Some (Err ''--sort-by accepts only name or kind'')"
      by (simp add: Validate_eq)
    with Inr show ?thesis by (simp add: Run_def)
  qed
qed

theorem C8_Validate_sort_key_witness:
  "SortBy bogusOptions \<noteq> [] \<and> SortBy bogusOptions \<noteq> ''name'' \<and>
   SortBy bogusOptions \<noteq> ''kind'' \<and>
   Validate bogusOptions = Some (Err ''--sort-by accepts only name or kind'') \<and>
   fst (Run Inr bogusOptions (mkGetter (mkClient scenarioA None)) mkCommand []) = [] \<and>
   (\<exists>err. snd (Run Inr bogusOptions (mkGetter (mkClient scenarioA None)) mkCommand []) =
           ExitFatal err)"
proof -
  have bad: "SortBy bogusOptions \<noteq> [] \<and> SortBy bogusOptions \<noteq> ''name'' \<and>
             SortBy bogusOptions \<noteq> ''kind''"
    by (simp add: bogusOptions_def mkOptions_def)
  have v: "Validate bogusOptions = Some (Err ''--sort-by accepts only name or kind'')"
    by (simp add: Validate_eq bogusOptions_def mkOptions_def)
  from C8_Validate_sort_key
         [of bogusOptions Inr "mkGetter (mkClient scenarioA None)" mkCommand "[]"] bad v
  show ?thesis by blast
qed

text \<open>
  C9. A bucket whose group-version string fails to parse is skipped, and the buckets
  around it are processed: with the malformed bucket or without it in the catalog, the
  loops give the same slices and \<open>RunAPIResources\<close> gives the same run (the same calls
  with the same printed object, the same \<^verbatim>\<open>resources\<close>, the same returned error or
  panic); and every resource of another bucket that parses, if it has a verb and passes
  the active filters, is an entry of the loops' result and of \<^verbatim>\<open>resources\<close>, and a
  record of every object handed to the printer.
\<close>

theorem C9_malformed_bucket_skipped:
  assumes "ParseGroupVersion (GroupVersion b) = Inl err"
  shows "collect opts (pre @ b # post) acc = collect opts (pre @ post) acc \<and>
         RunAPIResources (opts\<lparr>discoveryClient := Some (mkClient (pre @ b # post) ferr)\<rparr>) =
         RunAPIResources (opts\<lparr>discoveryClient := Some (mkClient (pre @ post) ferr)\<rparr>) \<and>
         (\<forall>l \<in> set (pre @ post). \<forall>r \<in> set (APIResources l). \<forall>gv.
            ParseGroupVersion (GroupVersion l) = Inr gv \<and>
            Verbs r \<noteq> [] \<and>
            (groupChanged opts \<longrightarrow> o_APIGroup opts = gv_Group gv) \<and>
            (nsChanged opts \<longrightarrow> o_Namespaced opts = Namespaced r) \<and>
            (o_Verbs opts \<noteq> [] \<longrightarrow> set (o_Verbs opts) \<subseteq> set (Verbs r)) \<and>
            (o_Categories opts \<noteq> [] \<longrightarrow> set (o_Categories opts) \<subseteq> set (Categories r)) \<longrightarrow>
            \<lparr>APIGroup = gv_Group gv, APIGroupVersion = gv_String gv, APIResource = r\<rparr>
              \<in> set (fst (collect opts (pre @ b # post) ([], []))) \<and>
            \<lparr>APIGroup = gv_Group gv, APIGroupVersion = gv_String gv, APIResource = r\<rparr>
              \<in> set (run_resources (RunAPIResources
                   (opts\<lparr>discoveryClient := Some (mkClient (pre @ b # post) ferr)\<rparr>))) \<and>
            (\<forall>fl. EvPrintObj fl \<in> set (run_trace (RunAPIResources
                   (opts\<lparr>discoveryClient := Some (mkClient (pre @ b # post) ferr)\<rparr>))) \<longrightarrow>
               r \<in> set (APIResources fl)))"
proof (intro conjI ballI allI impI)
  show skip: "collect opts (pre @ b # post) acc = collect opts (pre @ post) acc" for acc
    by (rule collect_skips_malformed [OF assms])
  show "RunAPIResources (opts\<lparr>discoveryClient := Some (mkClient (pre @ b # post) ferr)\<rparr>) =
        RunAPIResources (opts\<lparr>discoveryClient := Some (mkClient (pre @ post) ferr)\<rparr>)"
    by (simp add: RunAPIResources_def mkClient_def Let_def skip
          split: option.splits sum.splits prod.splits)
next
  fix l r gv
  assume l: "l \<in> set (pre @ post)" and r: "r \<in> set (APIResources l)"
    and c: "ParseGroupVersion (GroupVersion l) = Inr gv \<and>
            Verbs r \<noteq> [] \<and>
            (groupChanged opts \<longrightarrow> o_APIGroup opts = gv_Group gv) \<and>
            (nsChanged opts \<longrightarrow> o_Namespaced opts = Namespaced r) \<and>
            (o_Verbs opts \<noteq> [] \<longrightarrow> set (o_Verbs opts) \<subseteq> set (Verbs r)) \<and>
            (o_Categories opts \<noteq> [] \<longrightarrow> set (o_Categories opts) \<subseteq> set (Categories r))"
  have k: "keeps opts gv r"
    using c by (auto simp: keeps_def HasAll_def Has_def sets_New_def list_all_iff)
  have "entry gv r \<in> set (fst (collect opts (pre @ post) ([], [])))"
    using kept_entry_collected [OF l r _ k] c by simp
  then have m: "entry gv r \<in> set (fst (collect opts (pre @ b # post) ([], [])))"
    by (simp add: collect_skips_malformed [OF assms])
  show "\<lparr>APIGroup = gv_Group gv, APIGroupVersion = gv_String gv, APIResource = r\<rparr>
          \<in> set (fst (collect opts (pre @ b # post) ([], [])))"
    using m by (simp add: entry_def)
  show "\<lparr>APIGroup = gv_Group gv, APIGroupVersion = gv_String gv, APIResource = r\<rparr>
          \<in> set (run_resources (RunAPIResources
               (opts\<lparr>discoveryClient := Some (mkClient (pre @ b # post) ferr)\<rparr>)))"
    using m by (simp add: set_run_resources entry_def)
  fix fl
  assume "EvPrintObj fl \<in> set (run_trace (RunAPIResources
            (opts\<lparr>discoveryClient := Some (mkClient (pre @ b # post) ferr)\<rparr>)))"
  then have "APIResources fl = map APIResource (fst (collect opts (pre @ b # post) ([], [])))"
    by (rule printed_resources)
  moreover have "r \<in> APIResource ` set (fst (collect opts (pre @ b # post) ([], [])))"
    using m by (force simp: entry_def)
  ultimately show "r \<in> set (APIResources fl)"
    by simp
qed

theorem C9_malformed_bucket_skipped_witness:
  "ParseGroupVersion (GroupVersion malformedBucket) =
     Inl (Err ''unexpected GroupVersion string: a/b/c'') \<and>
   RunAPIResources ((mkOptions (mkClient [] None))
      \<lparr>discoveryClient := Some (mkClient ([mkBucket ''apps/v1'' [deployments]] @
          malformedBucket # [mkBucket ''v1'' [namespaces]]) None)\<rparr>) =
   RunAPIResources ((mkOptions (mkClient [] None))
      \<lparr>discoveryClient := Some (mkClient ([mkBucket ''apps/v1'' [deployments]] @
          [mkBucket ''v1'' [namespaces]]) None)\<rparr>) \<and>
   fst (collect (mkOptions (mkClient [] None))
          ([mkBucket ''apps/v1'' [deployments]] @ malformedBucket # [mkBucket ''v1'' [namespaces]])
          ([], [])) = [deploymentsEntry, namespacesEntry] \<and>
   run_resources (RunAPIResources ((mkOptions (mkClient [] None))
      \<lparr>discoveryClient := Some (mkClient ([mkBucket ''apps/v1'' [deployments]] @
          malformedBucket # [mkBucket ''v1'' [namespaces]]) None)\<rparr>)) =
     [namespacesEntry, deploymentsEntry] \<and>
   run_trace (RunAPIResources ((mkOptions (mkClient [] None))
      \<lparr>discoveryClient := Some (mkClient ([mkBucket ''apps/v1'' [deployments]] @
          malformedBucket # [mkBucket ''v1'' [namespaces]]) None)\<rparr>)) =
     [EvInvalidate, EvServerPreferredResources,
      EvWrite (fst (printContextHeaders (\<lambda>_. None) [])),
      EvPrintObj (mkFlatList [deployments, namespaces]), EvFlush] \<and>
   run_result (RunAPIResources ((mkOptions (mkClient [] None))
      \<lparr>discoveryClient := Some (mkClient ([mkBucket ''apps/v1'' [deployments]] @
          malformedBucket # [mkBucket ''v1'' [namespaces]]) None)\<rparr>)) = Return None"
proof -
  let ?pre = "[mkBucket ''apps/v1'' [deployments]]"
  let ?post = "[mkBucket ''v1'' [namespaces]]"
  let ?o = "mkOptions (mkClient [] None)"
  let ?R = "RunAPIResources (?o\<lparr>discoveryClient :=
              Some (mkClient (?pre @ malformedBucket # ?post) None)\<rparr>)"
  have p: "ParseGroupVersion (GroupVersion malformedBucket) =
             Inl (Err ''unexpected GroupVersion string: a/b/c'')"
    by (simp add: malformedBucket_def mkBucket_def ParseGroupVersion_def)
  have c: "fst (collect ?o (?pre @ malformedBucket # ?post) ([], [])) =
             [deploymentsEntry, namespacesEntry]"
    by code_simp
  have r: "run_resources ?R = [namespacesEntry, deploymentsEntry]"
    by code_simp
  have t: "run_trace ?R =
     [EvInvalidate, EvServerPreferredResources,
      EvWrite (fst (printContextHeaders (\<lambda>_. None) [])),
      EvPrintObj (mkFlatList [deployments, namespaces]), EvFlush]"
    by code_simp
  have q: "run_result ?R = Return None"
    by code_simp
  from C9_malformed_bucket_skipped [OF p, of ?o ?pre ?post] p c r t q
  show ?thesis by blast
qed

text \<open>
  C10. The calls a run makes, the object it hands to the printer among them, and what it
  returns are the same for any two sort keys: the sort of \<^verbatim>\<open>resources\<close> has no influence
  on the flattened list object.
\<close>

theorem C10_print_independent_of_SortBy:
  "run_trace (RunAPIResources (opts\<lparr>SortBy := ka\<rparr>)) =
     run_trace (RunAPIResources (opts\<lparr>SortBy := kb\<rparr>)) \<and>
   run_result (RunAPIResources (opts\<lparr>SortBy := ka\<rparr>)) =
     run_result (RunAPIResources (opts\<lparr>SortBy := kb\<rparr>))"
  by (simp add: RunAPIResources_def Let_def split: option.splits sum.splits prod.splits)

theorem C10_print_independent_of_SortBy_witness:
  "run_trace (RunAPIResources ((mkOptions (mkClient scenarioA None))\<lparr>SortBy := []\<rparr>)) =
     run_trace (RunAPIResources ((mkOptions (mkClient scenarioA None))\<lparr>SortBy := ''name''\<rparr>)) \<and>
   run_resources (RunAPIResources ((mkOptions (mkClient scenarioA None))\<lparr>SortBy := []\<rparr>)) =
     [namespacesEntry, deploymentsEntry] \<and>
   run_resources (RunAPIResources ((mkOptions (mkClient scenarioA None))\<lparr>SortBy := ''name''\<rparr>)) =
     [deploymentsEntry, namespacesEntry]"
proof -
  have a: "run_resources (RunAPIResources ((mkOptions (mkClient scenarioA None))\<lparr>SortBy := []\<rparr>)) =
             [namespacesEntry, deploymentsEntry]"
    by code_simp
  have b: "run_resources
             (RunAPIResources ((mkOptions (mkClient scenarioA None))\<lparr>SortBy := ''name''\<rparr>)) =
             [deploymentsEntry, namespacesEntry]"
    by code_simp
  from C10_print_independent_of_SortBy
         [where opts = "mkOptions (mkClient scenarioA None)" and ka = "[]" and kb = "''name''"]
    a b
  show ?thesis by blast
qed

end
